theory Spec2Isabelle
  imports Main
begin

section \<open>The Delfos MCP server: tools over a SQL database\<close>

text \<open>
  A shallow embedding of \<^verbatim>\<open>delfos_mcp.py\<close>. Every tool is a function from the
  world before the call to a result and the world after it. The database driver
  (pyodbc and the server behind it), the random source of \<^verbatim>\<open>uuid.uuid4\<close>, the clock
  of \<^verbatim>\<open>datetime.now\<close> and the process environment of \<^verbatim>\<open>os.getenv\<close> are outside
  the repository: they are the fields of an environment record, and every theorem
  holds for all of them. An exception is the \<open>Inl\<close> branch of the result.
\<close>

subsection \<open>Values, rows and errors\<close>

text \<open>
  What the program hands to the driver: \<^verbatim>\<open>None\<close>, a Python \<^verbatim>\<open>str\<close>, or any other
  object (a number of the caller's JSON, the \<^verbatim>\<open>datetime\<close> of the clock), which the
  program only passes on and which is carried by an identifying text.
\<close>

datatype py_value = PyNone | PyStr string | PyObj string

text \<open>
  What the driver hands back in a column: SQL NULL (Python's \<^verbatim>\<open>None\<close>), a Python
  \<^verbatim>\<open>str\<close> (\<open>DbStr s r\<close>: the string \<open>s\<close>, with the text \<open>r\<close> of its \<^verbatim>\<open>repr\<close>), or a
  value of any other type, a number or a date (\<open>DbVal s r\<close>: the texts of its
  \<^verbatim>\<open>str\<close> and of its \<^verbatim>\<open>repr\<close>).
\<close>

datatype db_value = DbNull | DbStr string string | DbVal string string

fun str_value :: "db_value \<Rightarrow> string" where
  "str_value DbNull = ''None''"
| "str_value (DbStr s r) = s"
| "str_value (DbVal s r) = s"

fun repr_value :: "db_value \<Rightarrow> string" where
  "repr_value DbNull = ''None''"
| "repr_value (DbStr s r) = r"
| "repr_value (DbVal s r) = r"

text \<open>A \<^verbatim>\<open>pyodbc.Row\<close>: the columns in order, each with its name.\<close>

type_synonym row = "(string \<times> db_value) list"

text \<open>
  What a statement leaves in the cursor: no result set at all (a statement that is
  not a query), or the rows of one.
\<close>

datatype result_set = NoResultSet | Rows "row list"

text \<open>
  The exceptions that can leave a tool: an error of the driver (any \<^verbatim>\<open>pyodbc.Error\<close>,
  with its message), and the three Python raises on the fetched data: reading an
  attribute that is not there, indexing an empty sequence, and joining a sequence
  with an item that is not a \<^verbatim>\<open>str\<close>.
\<close>

datatype py_error = DriverError string | AttributeError | IndexError | TypeError

type_synonym py_dict = "string \<Rightarrow> py_value option"

definition dict_get :: "py_dict \<Rightarrow> string \<Rightarrow> py_value" where
  "dict_get d k = (case d k of None \<Rightarrow> PyNone | Some v \<Rightarrow> v)"

subsection \<open>Strings\<close>

text \<open>\<^verbatim>\<open>sep.join(xs)\<close>.\<close>

fun join :: "string \<Rightarrow> string list \<Rightarrow> string" where
  "join sep [] = []"
| "join sep [x] = x"
| "join sep (x # y # ys) = x @ sep @ join sep (y # ys)"

definition digit_char :: "nat \<Rightarrow> char" where
  "digit_char d = char_of (48 + d)"

text \<open>The decimal text of a non-negative Python \<^verbatim>\<open>int\<close>, as an f-string prints it.\<close>

fun str_nat :: "nat \<Rightarrow> string" where
  "str_nat n = (if n < 10 then [digit_char n] else str_nat (n div 10) @ [digit_char (n mod 10)])"

declare str_nat.simps [simp del]

text \<open>
  An f-string field holding the result of \<^verbatim>\<open>os.getenv\<close>: the text itself, or
  \<^verbatim>\<open>None\<close> printed when the variable is not set.
\<close>

definition fstr_opt :: "string option \<Rightarrow> string" where
  "fstr_opt v = (case v of None \<Rightarrow> ''None'' | Some s \<Rightarrow> s)"

text \<open>
  \<^verbatim>\<open>str(row)\<close> of a \<^verbatim>\<open>pyodbc.Row\<close> is the \<^verbatim>\<open>repr\<close> of the tuple of its values:
  the values' \<^verbatim>\<open>repr\<close> texts separated by a comma and a space, in parentheses, with
  the trailing comma of a one-element tuple.
\<close>

definition str_row :: "row \<Rightarrow> string" where
  "str_row r = ''('' @ join '', '' (map (\<lambda>c. repr_value (snd c)) r)
                 @ (if length r = 1 then '','' else []) @ '')''"

subsection \<open>The world and the environment\<close>

text \<open>
  Every call on the driver is logged, with the number of the connection it goes
  through. A statement is logged when it is sent, also when the server rejects it.
\<close>

datatype event =
    EvConnect nat
  | EvCursor nat
  | EvExecute nat string "py_value list"
  | EvFetchAll nat
  | EvFetchOne nat
  | EvCommit nat
  | EvCursorClose nat
  | EvConnClose nat

record 'db world =
  db :: 'db
  trace :: "event list"
  next_conn :: nat
  uuid_calls :: nat
  clock_calls :: nat

text \<open>
  The collaborators. \<open>db_connect\<close>, \<open>db_execute\<close> and \<open>db_commit\<close> answer for the
  server in its current state, with the driver's error message when they raise;
  \<open>uuid4_value n\<close> and \<open>now_value n\<close> are the results of the \<open>n\<close>-th call of
  \<^verbatim>\<open>uuid.uuid4\<close> and \<^verbatim>\<open>datetime.now\<close>.
\<close>

record 'db env =
  db_connect :: "'db \<Rightarrow> string option"
  db_execute :: "'db \<Rightarrow> string \<Rightarrow> py_value list \<Rightarrow> (string + result_set) \<times> 'db"
  db_commit :: "'db \<Rightarrow> string option \<times> 'db"
  uuid4_value :: "nat \<Rightarrow> string"
  now_value :: "nat \<Rightarrow> py_value"
  getenv :: "string \<Rightarrow> string option"

type_synonym ('a, 'db) io = "'db world \<Rightarrow> (py_error + 'a) \<times> 'db world"

definition io_return :: "'a \<Rightarrow> ('a, 'db) io" where
  "io_return x w = (Inr x, w)"

definition io_bind :: "('a, 'db) io \<Rightarrow> ('a \<Rightarrow> ('b, 'db) io) \<Rightarrow> ('b, 'db) io" where
  "io_bind m f w = (case m w of (Inl e, w') \<Rightarrow> (Inl e, w') | (Inr x, w') \<Rightarrow> f x w')"

text \<open>A computation on fetched data that may raise, run inside a tool.\<close>

definition io_lift :: "py_error + 'a \<Rightarrow> ('a, 'db) io" where
  "io_lift r w = (r, w)"

definition res_bind :: "py_error + 'a \<Rightarrow> ('a \<Rightarrow> py_error + 'b) \<Rightarrow> py_error + 'b" where
  "res_bind r f = (case r of Inl e \<Rightarrow> Inl e | Inr x \<Rightarrow> f x)"

text \<open>A list comprehension whose element expression may raise: the first raise wins.\<close>

fun map_result :: "('a \<Rightarrow> py_error + 'b) \<Rightarrow> 'a list \<Rightarrow> py_error + 'b list" where
  "map_result f [] = Inr []"
| "map_result f (x # xs) =
     (case f x of Inl e \<Rightarrow> Inl e
      | Inr y \<Rightarrow> (case map_result f xs of Inl e \<Rightarrow> Inl e | Inr ys \<Rightarrow> Inr (y # ys)))"

definition log_event :: "event \<Rightarrow> 'db world \<Rightarrow> 'db world" where
  "log_event e w = w\<lparr>trace := trace w @ [e]\<rparr>"

subsection \<open>The driver's objects\<close>

record cursor =
  cur_conn :: nat
  cur_result :: result_set

text \<open>\<^verbatim>\<open>get_db_connection\<close>: \<^verbatim>\<open>pyodbc.connect(CONNECTION_STRING)\<close>, a new connection each time.\<close>

definition get_db_connection :: "'db env \<Rightarrow> (nat, 'db) io" where
  "get_db_connection env w =
     (case db_connect env (db w) of
        Some msg \<Rightarrow> (Inl (DriverError msg), w)
      | None \<Rightarrow> (Inr (next_conn w),
                 log_event (EvConnect (next_conn w)) (w\<lparr>next_conn := Suc (next_conn w)\<rparr>)))"

definition conn_cursor :: "nat \<Rightarrow> (cursor, 'db) io" where
  "conn_cursor conn w =
     (Inr \<lparr>cur_conn = conn, cur_result = NoResultSet\<rparr>, log_event (EvCursor conn) w)"

definition cursor_execute ::
  "'db env \<Rightarrow> cursor \<Rightarrow> string \<Rightarrow> py_value list \<Rightarrow> (cursor, 'db) io" where
  "cursor_execute env cur stmt params w =
     (case db_execute env (db w) stmt params of
        (Inl msg, d) \<Rightarrow>
          (Inl (DriverError msg), log_event (EvExecute (cur_conn cur) stmt params) (w\<lparr>db := d\<rparr>))
      | (Inr rs, d) \<Rightarrow>
          (Inr (cur\<lparr>cur_result := rs\<rparr>),
           log_event (EvExecute (cur_conn cur) stmt params) (w\<lparr>db := d\<rparr>)))"

text \<open>\<^verbatim>\<open>cursor.fetchall()\<close> raises when the last statement was not a query.\<close>

definition cursor_fetchall :: "cursor \<Rightarrow> (row list, 'db) io" where
  "cursor_fetchall cur w =
     (case cur_result cur of
        NoResultSet \<Rightarrow>
          (Inl (DriverError ''No results.  Previous SQL was not a query.''),
           log_event (EvFetchAll (cur_conn cur)) w)
      | Rows rs \<Rightarrow> (Inr rs, log_event (EvFetchAll (cur_conn cur)) w))"

text \<open>\<^verbatim>\<open>cursor.fetchone()\<close>: the first row, or \<^verbatim>\<open>None\<close> when there is none.\<close>

definition cursor_fetchone :: "cursor \<Rightarrow> (row option, 'db) io" where
  "cursor_fetchone cur w =
     (case cur_result cur of
        NoResultSet \<Rightarrow>
          (Inl (DriverError ''No results.  Previous SQL was not a query.''),
           log_event (EvFetchOne (cur_conn cur)) w)
      | Rows [] \<Rightarrow> (Inr None, log_event (EvFetchOne (cur_conn cur)) w)
      | Rows (r # rs) \<Rightarrow> (Inr (Some r), log_event (EvFetchOne (cur_conn cur)) w))"

definition cursor_close :: "cursor \<Rightarrow> (unit, 'db) io" where
  "cursor_close cur w = (Inr (), log_event (EvCursorClose (cur_conn cur)) w)"

definition conn_commit :: "'db env \<Rightarrow> nat \<Rightarrow> (unit, 'db) io" where
  "conn_commit env conn w =
     (case db_commit env (db w) of
        (Some msg, d) \<Rightarrow> (Inl (DriverError msg), log_event (EvCommit conn) (w\<lparr>db := d\<rparr>))
      | (None, d) \<Rightarrow> (Inr (), log_event (EvCommit conn) (w\<lparr>db := d\<rparr>)))"

definition conn_close :: "nat \<Rightarrow> (unit, 'db) io" where
  "conn_close conn w = (Inr (), log_event (EvConnClose conn) w)"

definition uuid4 :: "'db env \<Rightarrow> (string, 'db) io" where
  "uuid4 env w = (Inr (uuid4_value env (uuid_calls w)), w\<lparr>uuid_calls := Suc (uuid_calls w)\<rparr>)"

definition datetime_now :: "'db env \<Rightarrow> (py_value, 'db) io" where
  "datetime_now env w =
     (Inr (now_value env (clock_calls w)), w\<lparr>clock_calls := Suc (clock_calls w)\<rparr>)"

text \<open>\<^verbatim>\<open>row.NAME\<close>: the column of that name, \<^verbatim>\<open>AttributeError\<close> when there is none.\<close>

definition row_attr :: "row \<Rightarrow> string \<Rightarrow> py_error + db_value" where
  "row_attr r name = (case map_of r name of None \<Rightarrow> Inl AttributeError | Some v \<Rightarrow> Inr v)"

text \<open>The same on the result of \<^verbatim>\<open>fetchone\<close>, which may be \<^verbatim>\<open>None\<close>.\<close>

definition opt_row_attr :: "row option \<Rightarrow> string \<Rightarrow> py_error + db_value" where
  "opt_row_attr r name = (case r of None \<Rightarrow> Inl AttributeError | Some x \<Rightarrow> row_attr x name)"

text \<open>\<^verbatim>\<open>row[0]\<close>.\<close>

definition row_first :: "row \<Rightarrow> py_error + db_value" where
  "row_first r = (case r of [] \<Rightarrow> Inl IndexError | c # cs \<Rightarrow> Inr (snd c))"

text \<open>
  \<^verbatim>\<open>sep.join(values)\<close> on column values as fetched: \<^verbatim>\<open>str.join\<close> takes only
  \<^verbatim>\<open>str\<close> items and raises \<^verbatim>\<open>TypeError\<close> at the first item of another type,
  \<^verbatim>\<open>None\<close> included.
\<close>

definition str_item :: "db_value \<Rightarrow> py_error + string" where
  "str_item v = (case v of DbStr s r \<Rightarrow> Inr s | DbNull \<Rightarrow> Inl TypeError | DbVal s r \<Rightarrow> Inl TypeError)"

definition join_values :: "string \<Rightarrow> db_value list \<Rightarrow> py_error + string" where
  "join_values sep vs = res_bind (map_result str_item vs) (\<lambda>items. Inr (join sep items))"

subsection \<open>The statements\<close>

text \<open>The texts handed to \<^verbatim>\<open>cursor.execute\<close>, with the arguments put in as the f-strings do.\<close>

definition table_schema_query :: "string \<Rightarrow> string" where
  "table_schema_query table_name =
     ''SELECT COLUMN_NAME, DATA_TYPE FROM INFORMATION_SCHEMA.COLUMNS WHERE TABLE_NAME = ''
     @ [CHR 0x27] @ table_name @ [CHR 0x27]"

definition list_tables_query :: string where
  "list_tables_query =
     ''SELECT TABLE_NAME FROM INFORMATION_SCHEMA.TABLES WHERE TABLE_TYPE = 'BASE TABLE'' @ [CHR 0x27]"

definition database_info_query :: string where
  "database_info_query =
     ''SELECT DB_NAME() AS DatabaseName, SERVERPROPERTY('ProductVersion') AS Version''"

definition row_count_query :: "string \<Rightarrow> string" where
  "row_count_query table_name =
     ''SELECT COUNT(*) AS TotalRows FROM [SalesLT].['' @ table_name @ '']''"

definition primary_keys_query :: "string \<Rightarrow> string" where
  "primary_keys_query table_name =
     ''\<newline>        SELECT COLUMN_NAME \<newline>        FROM INFORMATION_SCHEMA.KEY_COLUMN_USAGE \<newline>        WHERE OBJECTPROPERTY(OBJECT_ID(CONSTRAINT_SCHEMA + '.' + CONSTRAINT_NAME), 'IsPrimaryKey') = 1 \<newline>        AND TABLE_NAME = ''
     @ [CHR 0x27] @ table_name @ [CHR 0x27] @ ''\<newline>    ''"

definition distinct_values_query :: "string \<Rightarrow> string \<Rightarrow> string" where
  "distinct_values_query table_name column_name =
     ''SELECT DISTINCT ['' @ column_name @ ''] FROM [SalesLT].['' @ table_name @ '']''"

definition relationships_query :: string where
  "relationships_query =
     ''\<newline>        SELECT \<newline>            fk.name AS ForeignKey,\<newline>            tp.name AS ParentTable,\<newline>            cp.name AS ParentColumn,\<newline>            tr.name AS ReferencedTable,\<newline>            cr.name AS ReferencedColumn\<newline>        FROM \<newline>            sys.foreign_keys AS fk\<newline>        INNER JOIN \<newline>            sys.foreign_key_columns AS fkc ON fk.object_id = fkc.constraint_object_id\<newline>        INNER JOIN \<newline>            sys.tables AS tp ON fkc.parent_object_id = tp.object_id\<newline>        INNER JOIN \<newline>            sys.columns AS cp ON fkc.parent_object_id = cp.object_id AND fkc.parent_column_id = cp.column_id\<newline>        INNER JOIN \<newline>            sys.tables AS tr ON fkc.referenced_object_id = tr.object_id\<newline>        INNER JOIN \<newline>            sys.columns AS cr ON fkc.referenced_object_id = cr.object_id AND fkc.referenced_column_id = cr.column_id\<newline>    ''"

definition insert_query :: string where
  "insert_query =
     ''\<newline>        INSERT INTO [dbo].[agent_output]\<newline>            ([run_id], [user_id], [question], [x_value], [y_value],\<newline>             [series], [category], [metric_name], [visual_hint], [created_at])\<newline>        VALUES (?, ?, ?, ?, ?, ?, ?, ?, ?, ?)\<newline>    ''"

subsection \<open>The tools\<close>

definition execute_sql_query :: "'db env \<Rightarrow> string \<Rightarrow> (string, 'db) io" where
  "execute_sql_query env query =
     io_bind (get_db_connection env) (\<lambda>conn.
     io_bind (conn_cursor conn) (\<lambda>cursor.
     io_bind (cursor_execute env cursor query []) (\<lambda>cursor.
     io_bind (cursor_fetchall cursor) (\<lambda>results.
     io_bind (cursor_close cursor) (\<lambda>_.
     io_bind (conn_close conn) (\<lambda>_.
     let result_str = join ''\<newline>'' (map str_row results)
     in io_return (if result_str \<noteq> [] then result_str else ''No results found.'')))))))"

definition get_table_schema :: "'db env \<Rightarrow> string \<Rightarrow> (string, 'db) io" where
  "get_table_schema env table_name =
     io_bind (get_db_connection env) (\<lambda>conn.
     io_bind (conn_cursor conn) (\<lambda>cursor.
     io_bind (cursor_execute env cursor (table_schema_query table_name) []) (\<lambda>cursor.
     io_bind (cursor_fetchall cursor) (\<lambda>columns.
     io_bind (cursor_close cursor) (\<lambda>_.
     io_bind (conn_close conn) (\<lambda>_.
     if columns = [] then
       io_return (''No schema found for table '' @ [CHR 0x27] @ table_name @ [CHR 0x27] @ ''.'')
     else
       io_bind (io_lift (map_result (\<lambda>col.
           res_bind (row_attr col ''COLUMN_NAME'') (\<lambda>name.
           res_bind (row_attr col ''DATA_TYPE'') (\<lambda>type.
           Inr (str_value name @ '': '' @ str_value type)))) columns)) (\<lambda>lines.
       io_return (join ''\<newline>'' lines))))))))"

definition list_tables :: "'db env \<Rightarrow> (string, 'db) io" where
  "list_tables env =
     io_bind (get_db_connection env) (\<lambda>conn.
     io_bind (conn_cursor conn) (\<lambda>cursor.
     io_bind (cursor_execute env cursor list_tables_query []) (\<lambda>cursor.
     io_bind (cursor_fetchall cursor) (\<lambda>tables.
     io_bind (cursor_close cursor) (\<lambda>_.
     io_bind (conn_close conn) (\<lambda>_.
     io_bind (io_lift (map_result (\<lambda>table. row_attr table ''TABLE_NAME'') tables)) (\<lambda>table_list.
     if table_list \<noteq> [] then io_lift (join_values ''\<newline>'' table_list)
     else io_return ''No tables found in the database.'')))))))"

definition get_database_info :: "'db env \<Rightarrow> (string, 'db) io" where
  "get_database_info env =
     io_bind (get_db_connection env) (\<lambda>conn.
     io_bind (conn_cursor conn) (\<lambda>cursor.
     io_bind (cursor_execute env cursor database_info_query []) (\<lambda>cursor.
     io_bind (cursor_fetchone cursor) (\<lambda>info.
     io_bind (cursor_close cursor) (\<lambda>_.
     io_bind (conn_close conn) (\<lambda>_.
     io_bind (io_lift (opt_row_attr info ''DatabaseName'')) (\<lambda>name.
     io_bind (io_lift (opt_row_attr info ''Version'')) (\<lambda>version.
     io_return (''Database Name: '' @ str_value name @ ''\<newline>Version: '' @ str_value version)))))))))"

definition get_table_row_count :: "'db env \<Rightarrow> string \<Rightarrow> (string, 'db) io" where
  "get_table_row_count env table_name =
     io_bind (get_db_connection env) (\<lambda>conn.
     io_bind (conn_cursor conn) (\<lambda>cursor.
     io_bind (cursor_execute env cursor (row_count_query table_name) []) (\<lambda>cursor.
     io_bind (cursor_fetchone cursor) (\<lambda>row_count.
     io_bind (cursor_close cursor) (\<lambda>_.
     io_bind (conn_close conn) (\<lambda>_.
     io_bind (io_lift (opt_row_attr row_count ''TotalRows'')) (\<lambda>total.
     io_return (''Table '' @ [CHR 0x27] @ table_name @ [CHR 0x27] @ '' has ''
                @ str_value total @ '' rows.''))))))))"

definition get_primary_keys :: "'db env \<Rightarrow> string \<Rightarrow> (string, 'db) io" where
  "get_primary_keys env table_name =
     io_bind (get_db_connection env) (\<lambda>conn.
     io_bind (conn_cursor conn) (\<lambda>cursor.
     io_bind (cursor_execute env cursor (primary_keys_query table_name) []) (\<lambda>cursor.
     io_bind (cursor_fetchall cursor) (\<lambda>keys.
     io_bind (cursor_close cursor) (\<lambda>_.
     io_bind (conn_close conn) (\<lambda>_.
     if keys = [] then
       io_return (''No primary keys found for table '' @ [CHR 0x27] @ table_name @ [CHR 0x27] @ ''.'')
     else
       io_bind (io_lift (map_result (\<lambda>key. row_attr key ''COLUMN_NAME'') keys)) (\<lambda>key_list.
       io_lift (join_values '', '' key_list))))))))"

definition get_distinct_values :: "'db env \<Rightarrow> string \<Rightarrow> string \<Rightarrow> (string, 'db) io" where
  "get_distinct_values env table_name column_name =
     io_bind (get_db_connection env) (\<lambda>conn.
     io_bind (conn_cursor conn) (\<lambda>cursor.
     io_bind (cursor_execute env cursor (distinct_values_query table_name column_name) []) (\<lambda>cursor.
     io_bind (cursor_fetchall cursor) (\<lambda>vals.
     io_bind (cursor_close cursor) (\<lambda>_.
     io_bind (conn_close conn) (\<lambda>_.
     if vals = [] then
       io_return (''No distinct values found in column '' @ [CHR 0x27] @ column_name @ [CHR 0x27]
                  @ '' of table '' @ [CHR 0x27] @ table_name @ [CHR 0x27] @ ''.'')
     else
       io_bind (io_lift (map_result (\<lambda>v. res_bind (row_first v) (\<lambda>x. Inr (str_value x))) vals))
         (\<lambda>value_list.
       io_return (join ''\<newline>'' value_list))))))))"

definition relationship_line :: "row \<Rightarrow> py_error + string" where
  "relationship_line rel =
     res_bind (row_attr rel ''ForeignKey'') (\<lambda>fk.
     res_bind (row_attr rel ''ParentTable'') (\<lambda>pt.
     res_bind (row_attr rel ''ParentColumn'') (\<lambda>pc.
     res_bind (row_attr rel ''ReferencedTable'') (\<lambda>rt.
     res_bind (row_attr rel ''ReferencedColumn'') (\<lambda>rc.
     Inr (''Foreign Key: '' @ str_value fk @ '', '' @ str_value pt @ ''('' @ str_value pc
          @ '') -> '' @ str_value rt @ ''('' @ str_value rc @ '')''))))))"

definition get_table_relationships :: "'db env \<Rightarrow> (string, 'db) io" where
  "get_table_relationships env =
     io_bind (get_db_connection env) (\<lambda>conn.
     io_bind (conn_cursor conn) (\<lambda>cursor.
     io_bind (cursor_execute env cursor relationships_query []) (\<lambda>cursor.
     io_bind (cursor_fetchall cursor) (\<lambda>relationships.
     io_bind (cursor_close cursor) (\<lambda>_.
     io_bind (conn_close conn) (\<lambda>_.
     if relationships = [] then
       io_return ''No foreign key relationships found in the database.''
     else
       io_bind (io_lift (map_result relationship_line relationships)) (\<lambda>rel_list.
       io_return (join ''\<newline>'' rel_list))))))))"

text \<open>The ten values bound by one insert, in the order of the statement's columns.\<close>

definition insert_params ::
  "string \<Rightarrow> string \<Rightarrow> string \<Rightarrow> string \<Rightarrow> string \<Rightarrow> py_value \<Rightarrow> py_dict \<Rightarrow> py_value list" where
  "insert_params run_id user_id question metric_name visual_hint created_at row =
     [PyStr run_id, PyStr user_id, PyStr question,
      dict_get row ''x_value'', dict_get row ''y_value'',
      dict_get row ''series'', dict_get row ''category'',
      PyStr metric_name, PyStr visual_hint, created_at]"

text \<open>
  The loop over \<^verbatim>\<open>results\<close>: one insert per row, counted. An insert that raises
  ends the loop and the call.
\<close>

fun insert_rows ::
  "'db env \<Rightarrow> cursor \<Rightarrow> (py_dict \<Rightarrow> py_value list) \<Rightarrow> py_dict list \<Rightarrow> nat \<Rightarrow> (nat, 'db) io" where
  "insert_rows env cur params [] rows_inserted w = (Inr rows_inserted, w)"
| "insert_rows env cur params (row # rest) rows_inserted w =
     (case cursor_execute env cur insert_query (params row) w of
        (Inl e, w') \<Rightarrow> (Inl e, w')
      | (Inr cur', w') \<Rightarrow> insert_rows env cur' params rest (Suc rows_inserted) w')"

definition insert_agent_output_batch ::
  "'db env \<Rightarrow> string \<Rightarrow> string \<Rightarrow> py_dict list \<Rightarrow> string \<Rightarrow> string \<Rightarrow> (string, 'db) io" where
  "insert_agent_output_batch env user_id question results metric_name visual_hint =
     io_bind (get_db_connection env) (\<lambda>conn.
     io_bind (conn_cursor conn) (\<lambda>cursor.
     io_bind (uuid4 env) (\<lambda>run_id.
     io_bind (datetime_now env) (\<lambda>created_at.
     io_bind (insert_rows env cursor
                (insert_params run_id user_id question metric_name visual_hint created_at)
                results 0) (\<lambda>rows_inserted.
     io_bind (conn_commit env conn) (\<lambda>_.
     io_bind (cursor_close cursor) (\<lambda>_.
     io_bind (conn_close conn) (\<lambda>_.
     io_return (''Inserted '' @ str_nat rows_inserted @ '' rows successfully. run_id: ''
                @ run_id)))))))))"

definition VISUAL_PAGE_MAP :: "(string \<times> string) list" where
  "VISUAL_PAGE_MAP =
     [(''linea'', ''Line''),
      (''barras'', ''Bar''),
      (''barras_agrupadas'', ''StackedBar''),
      (''pie'', ''PieChart'')]"

definition page_name_of :: "string \<Rightarrow> string" where
  "page_name_of visual_hint =
     (case map_of VISUAL_PAGE_MAP visual_hint of
        None \<Rightarrow> ''ReportSectionBarras''
      | Some page \<Rightarrow> page)"

definition generate_powerbi_url :: "'db env \<Rightarrow> string \<Rightarrow> string \<Rightarrow> (string, 'db) io" where
  "generate_powerbi_url env run_id visual_hint =
     (let WORKSPACE_ID = getenv env ''WORKSPACE_ID'';
          REPORT_ID = getenv env ''REPORT_ID'';
          page_name = page_name_of visual_hint;
          url = ''https://app.powerbi.com/groups/'' @ fstr_opt WORKSPACE_ID
                @ ''/reports/'' @ fstr_opt REPORT_ID
                @ ''?pageName='' @ page_name
                @ ''&filter=agent_output/run_id%20eq%20'' @ [CHR 0x27] @ run_id @ [CHR 0x27]
      in io_return url)"

subsection \<open>The tool registry\<close>

text \<open>A call of a registered tool: its name with its arguments.\<close>

datatype tool_call =
    ExecuteSqlQuery string
  | GetTableSchema string
  | ListTables
  | GetDatabaseInfo
  | GetTableRowCount string
  | GetPrimaryKeys string
  | GetDistinctValues string string
  | GetTableRelationships
  | InsertAgentOutputBatch string string "py_dict list" string string
  | GeneratePowerbiUrl string string

fun call_tool :: "'db env \<Rightarrow> tool_call \<Rightarrow> (string, 'db) io" where
  "call_tool env (ExecuteSqlQuery query) = execute_sql_query env query"
| "call_tool env (GetTableSchema t) = get_table_schema env t"
| "call_tool env ListTables = list_tables env"
| "call_tool env GetDatabaseInfo = get_database_info env"
| "call_tool env (GetTableRowCount t) = get_table_row_count env t"
| "call_tool env (GetPrimaryKeys t) = get_primary_keys env t"
| "call_tool env (GetDistinctValues t c) = get_distinct_values env t c"
| "call_tool env GetTableRelationships = get_table_relationships env"
| "call_tool env (InsertAgentOutputBatch u q rs m v) = insert_agent_output_batch env u q rs m v"
| "call_tool env (GeneratePowerbiUrl r v) = generate_powerbi_url env r v"

text \<open>The tools that open a database connection: all but the URL composer.\<close>

fun opens_connection :: "tool_call \<Rightarrow> bool" where
  "opens_connection (GeneratePowerbiUrl r v) = False"
| "opens_connection c = True"

subsection \<open>Reading a call's trace\<close>

text \<open>The events a call added to the trace, and how often it closed a connection.\<close>

definition new_events :: "'db world \<Rightarrow> 'db world \<Rightarrow> event list" where
  "new_events w w' = drop (length (trace w)) (trace w')"

definition closes :: "nat \<Rightarrow> event list \<Rightarrow> nat" where
  "closes conn evs = count_list evs (EvConnClose conn)"

subsection \<open>Percent-decoding\<close>

text \<open>
  What a reader of the URL does with the filter value (\<^verbatim>\<open>urllib.parse.unquote\<close>): every
  \<^verbatim>\<open>%\<close> followed by two hexadecimal digits becomes the character of that code, and
  everything else stays.
\<close>

definition hex_val :: "char \<Rightarrow> nat option" where
  "hex_val c =
     (let n = of_char c :: nat in
      if 48 \<le> n \<and> n \<le> 57 then Some (n - 48)
      else if 65 \<le> n \<and> n \<le> 70 then Some (n - 55)
      else if 97 \<le> n \<and> n \<le> 102 then Some (n - 87)
      else None)"

fun url_decode :: "string \<Rightarrow> string" where
  "url_decode (c # h # l # rest) =
     (if c = CHR ''%'' then
        (case (hex_val h, hex_val l) of
           (Some a, Some b) \<Rightarrow> char_of (16 * a + b) # url_decode rest
         | _ \<Rightarrow> c # url_decode (h # l # rest))
      else c # url_decode (h # l # rest))"
| "url_decode cs = cs"

text \<open>
  How a reader of the URL finds the filter value: the fragment (from the first
  \<^verbatim>\<open>#\<close> on) is cut off, the query is what follows the first \<^verbatim>\<open>?\<close>, the query is
  split into parameters at every \<^verbatim>\<open>&\<close>, a parameter is a name, the first \<^verbatim>\<open>=\<close>
  and a value, and the value of the first parameter of that name is percent-decoded.
\<close>

definition url_query :: "string \<Rightarrow> string" where
  "url_query url =
     (case dropWhile (\<lambda>ch. ch \<noteq> CHR ''?'') (takeWhile (\<lambda>ch. ch \<noteq> CHR ''#'') url) of
        [] \<Rightarrow> []
      | q # query \<Rightarrow> query)"

fun split_on :: "char \<Rightarrow> string \<Rightarrow> string list" where
  "split_on c [] = [[]]"
| "split_on c (x # xs) =
     (if x = c then [] # split_on c xs
      else (case split_on c xs of [] \<Rightarrow> [[x]] | p # ps \<Rightarrow> (x # p) # ps))"

fun find_param :: "string \<Rightarrow> string list \<Rightarrow> string option" where
  "find_param name [] = None"
| "find_param name (p # ps) =
     (case dropWhile (\<lambda>ch. ch \<noteq> CHR ''='') p of
        [] \<Rightarrow> find_param name ps
      | e # v \<Rightarrow> if takeWhile (\<lambda>ch. ch \<noteq> CHR ''='') p = name then Some v
                 else find_param name ps)"

definition url_filter_value :: "string \<Rightarrow> string option" where
  "url_filter_value url =
     map_option url_decode (find_param ''filter'' (split_on CHR ''&'' (url_query url)))"

subsection \<open>Concrete worlds and servers\<close>

text \<open>A fresh process: nothing logged, no connection opened yet.\<close>

definition world0 :: "unit world" where
  "world0 = \<lparr>db = (), trace = [], next_conn = 0, uuid_calls = 0, clock_calls = 0\<rparr>"

text \<open>
  A server that accepts the connection and every commit and answers every statement
  with the same outcome: a rejection with its message, or a result set.
\<close>

definition fixed_env :: "string + result_set \<Rightarrow> unit env" where
  "fixed_env outcome =
     \<lparr>db_connect = (\<lambda>d. None),
      db_execute = (\<lambda>d stmt params. (outcome, d)),
      db_commit = (\<lambda>d. (None, d)),
      uuid4_value = (\<lambda>n. ''run-'' @ str_nat n),
      now_value = (\<lambda>n. PyObj (''t'' @ str_nat n)),
      getenv = map_of [(''WORKSPACE_ID'', ''ws1''), (''REPORT_ID'', ''rep1'')]\<rparr>"

text \<open>
  A server whose database holds no table: the catalog views have no row for any table
  name, and a statement that reads from a table (the row count, the distinct values)
  is rejected, as the server rejects the name of an object it does not know.
\<close>

definition empty_db_env :: "unit env" where
  "empty_db_env =
     (fixed_env (Inr (Rows [])))
       \<lparr>db_execute := (\<lambda>d stmt params.
          (if take 15 stmt = ''SELECT COUNT(*)'' \<or> take 15 stmt = ''SELECT DISTINCT''
           then Inl ''42S02 Invalid object name'' else Inr (Rows []), d))\<rparr>"

text \<open>A batch of two result rows, the second without a category.\<close>

definition sample_results :: "py_dict list" where
  "sample_results =
     [map_of [(''x_value'', PyStr ''United States''), (''y_value'', PyObj ''123456.78''),
              (''category'', PyStr ''United States'')],
      map_of [(''x_value'', PyStr ''Canada''), (''y_value'', PyObj ''45678.9'')]]"

section \<open>Auxiliary facts\<close>

lemmas io_defs = io_return_def io_bind_def io_lift_def get_db_connection_def conn_cursor_def
  cursor_execute_def cursor_fetchall_def cursor_fetchone_def cursor_close_def conn_close_def
  conn_commit_def log_event_def uuid4_def datetime_now_def

lemma str_row_nonempty: "str_row r \<noteq> []"
  by (simp add: str_row_def)

lemma join_nonempty: "xs \<noteq> [] \<Longrightarrow> hd xs \<noteq> [] \<Longrightarrow> join sep xs \<noteq> []"
  by (induction sep xs rule: join.induct) auto

lemma map_result_total:
  "(\<And>x. x \<in> set xs \<Longrightarrow> f x = Inr (g x)) \<Longrightarrow> map_result f xs = Inr (map g xs)"
  by (induction xs) auto

section \<open>The generic query tool\<close>

text \<open>
  Claim C7. Whatever the query string, when the connection opens and the statement
  yields a row set, \<^verbatim>\<open>execute_sql_query\<close> returns \<^verbatim>\<open>No results found.\<close> if the
  fetched row set is empty, and otherwise the rows' texts (\<^verbatim>\<open>str(row)\<close>) joined by
  newlines, one line per row, in fetch order. The text of a row is never empty, so a
  row set with rows never falls into the sentinel.
\<close>

theorem execute_sql_query_result:
  assumes "db_connect env (db w) = None"
      and "fst (db_execute env (db w) query []) = Inr (Rows rows)"
  shows "fst (execute_sql_query env query w) =
           Inr (if rows = [] then ''No results found.'' else join ''\<newline>'' (map str_row rows))"
proof -
  have ne: "rows \<noteq> [] \<Longrightarrow> join ''\<newline>'' (map str_row rows) \<noteq> []"
    by (rule join_nonempty) (simp_all add: str_row_nonempty hd_map)
  show ?thesis using assms ne
    by (auto simp: execute_sql_query_def io_defs Let_def split: prod.splits sum.splits result_set.splits)
qed

theorem execute_sql_query_result_witness:
  "db_connect (fixed_env (Inr (Rows [[(''n'', DbVal ''1'' ''1'')], [(''n'', DbNull)]]))) (db world0) = None
   \<and> fst (execute_sql_query (fixed_env (Inr (Rows [[(''n'', DbVal ''1'' ''1'')], [(''n'', DbNull)]])))
        ''SELECT n FROM t'' world0) = Inr ''(1,)\<newline>(None,)''
   \<and> fst (execute_sql_query (fixed_env (Inr (Rows []))) ''SELECT n FROM t'' world0)
       = Inr ''No results found.''"
  using execute_sql_query_result [of "fixed_env (Inr (Rows [[(''n'', DbVal ''1'' ''1'')], [(''n'', DbNull)]]))"
          world0 "''SELECT n FROM t''" "[[(''n'', DbVal ''1'' ''1'')], [(''n'', DbNull)]]"]
        execute_sql_query_result [of "fixed_env (Inr (Rows []))" world0 "''SELECT n FROM t''" "[]"]
  by (simp add: fixed_env_def world0_def str_row_def)

section \<open>Distinct values\<close>

text \<open>
  Claim C10. \<^verbatim>\<open>get_distinct_values\<close> renders each fetched row as \<^verbatim>\<open>str\<close> of its
  first column, one line per row: a NULL among the distinct values is the line
  \<^verbatim>\<open>None\<close>, neither an empty line nor left out.
\<close>

theorem get_distinct_values_renders_null:
  assumes "db_connect env (db w) = None"
      and "fst (db_execute env (db w) (distinct_values_query table_name column_name) []) = Inr (Rows rows)"
      and "rows \<noteq> []"
      and "\<forall>r \<in> set rows. r \<noteq> []"
  shows "fst (get_distinct_values env table_name column_name w) =
           Inr (join ''\<newline>''
                  (map (\<lambda>r. case snd (hd r) of DbNull \<Rightarrow> ''None'' | DbStr s t \<Rightarrow> s | DbVal s t \<Rightarrow> s) rows))"
proof -
  have "map_result (\<lambda>v. res_bind (row_first v) (\<lambda>x. Inr (str_value x))) rows
        = Inr (map (\<lambda>r. case snd (hd r) of DbNull \<Rightarrow> ''None'' | DbStr s t \<Rightarrow> s | DbVal s t \<Rightarrow> s) rows)"
    using assms(4)
    by (intro map_result_total)
       (auto simp: res_bind_def row_first_def split: list.splits db_value.splits)
  then show ?thesis using assms(1-3)
    by (auto simp: get_distinct_values_def io_defs split: prod.splits sum.splits result_set.splits)
qed

theorem get_distinct_values_renders_null_witness:
  "db_connect (fixed_env (Inr (Rows [[(''City'', DbStr ''Bogota'' ([CHR 0x27] @ ''Bogota'' @ [CHR 0x27]))], [(''City'', DbNull)]]))) (db world0) = None
   \<and> fst (get_distinct_values (fixed_env (Inr (Rows [[(''City'', DbStr ''Bogota'' ([CHR 0x27] @ ''Bogota'' @ [CHR 0x27]))], [(''City'', DbNull)]])))
        ''Address'' ''City'' world0) = Inr ''Bogota\<newline>None''"
  using get_distinct_values_renders_null [of
          "fixed_env (Inr (Rows [[(''City'', DbStr ''Bogota'' ([CHR 0x27] @ ''Bogota'' @ [CHR 0x27]))], [(''City'', DbNull)]]))"
          world0 "''Address''" "''City''" "[[(''City'', DbStr ''Bogota'' ([CHR 0x27] @ ''Bogota'' @ [CHR 0x27]))], [(''City'', DbNull)]]"]
  by (simp add: fixed_env_def world0_def)

section \<open>The URL composer\<close>

text \<open>
  Claim C6. \<^verbatim>\<open>generate_powerbi_url\<close> maps \<^verbatim>\<open>linea\<close>, \<^verbatim>\<open>barras\<close>,
  \<^verbatim>\<open>barras_agrupadas\<close> and \<^verbatim>\<open>pie\<close> to their fixed page names and every other hint
  to the one default page, and returns the URL made of the workspace identifier, the
  report identifier, that page name and the filter on the given run identifier.
\<close>

theorem generate_powerbi_url_pages:
  "fst (generate_powerbi_url env run_id visual_hint w) =
     Inr (''https://app.powerbi.com/groups/'' @ fstr_opt (getenv env ''WORKSPACE_ID'')
          @ ''/reports/'' @ fstr_opt (getenv env ''REPORT_ID'')
          @ ''?pageName=''
          @ (if visual_hint = ''linea'' then ''Line''
             else if visual_hint = ''barras'' then ''Bar''
             else if visual_hint = ''barras_agrupadas'' then ''StackedBar''
             else if visual_hint = ''pie'' then ''PieChart''
             else ''ReportSectionBarras'')
          @ ''&filter=agent_output/run_id%20eq%20'' @ [CHR 0x27] @ run_id @ [CHR 0x27])"
  by (simp add: generate_powerbi_url_def page_name_of_def VISUAL_PAGE_MAP_def io_return_def Let_def)

text \<open>
  Claim C9. \<^verbatim>\<open>generate_powerbi_url\<close> is total and deterministic: it returns a URL (it
  never raises) for every pair of strings, the URL is the same in any two
  environments that agree on \<^verbatim>\<open>WORKSPACE_ID\<close> and \<^verbatim>\<open>REPORT_ID\<close>, whatever the
  database, the clock and the random source are, and the world is left as it was: no
  event of the driver is logged.
\<close>

theorem generate_powerbi_url_deterministic:
  assumes "getenv env1 ''WORKSPACE_ID'' = getenv env2 ''WORKSPACE_ID''"
      and "getenv env1 ''REPORT_ID'' = getenv env2 ''REPORT_ID''"
  shows "\<exists>url. generate_powerbi_url env1 run_id visual_hint w1 = (Inr url, w1)
             \<and> generate_powerbi_url env2 run_id visual_hint w2 = (Inr url, w2)"
  using assms by (simp add: generate_powerbi_url_def io_return_def Let_def)

theorem generate_powerbi_url_deterministic_witness:
  "getenv (fixed_env (Inl ''down'')) ''WORKSPACE_ID'' = getenv empty_db_env ''WORKSPACE_ID''
   \<and> getenv (fixed_env (Inl ''down'')) ''REPORT_ID'' = getenv empty_db_env ''REPORT_ID''
   \<and> (\<exists>url. generate_powerbi_url (fixed_env (Inl ''down'')) ''r1'' ''pie'' world0 = (Inr url, world0)
           \<and> generate_powerbi_url empty_db_env ''r1'' ''pie'' (world0\<lparr>trace := [EvConnect 0], next_conn := 1\<rparr>)
               = (Inr url, world0\<lparr>trace := [EvConnect 0], next_conn := 1\<rparr>))"
proof -
  have a: "getenv (fixed_env (Inl ''down'')) ''WORKSPACE_ID'' = getenv empty_db_env ''WORKSPACE_ID''"
    by (simp add: fixed_env_def empty_db_env_def)
  have b: "getenv (fixed_env (Inl ''down'')) ''REPORT_ID'' = getenv empty_db_env ''REPORT_ID''"
    by (simp add: fixed_env_def empty_db_env_def)
  show ?thesis
    using a b generate_powerbi_url_deterministic [OF a b, of "''r1''" "''pie''" world0
        "world0\<lparr>trace := [EvConnect 0], next_conn := 1\<rparr>"]
    by simp
qed

section \<open>The batch insert\<close>

lemma str_nat_small:
  "str_nat 0 = ''0''" "str_nat 1 = ''1''" "str_nat 2 = ''2''"
  "str_nat (Suc 0) = ''1''" "str_nat (Suc (Suc 0)) = ''2''"
  by code_simp+

lemma cursor_execute_Inr:
  "cursor_execute env cur stmt params w = (Inr cur', w') \<Longrightarrow>
     cur_conn cur' = cur_conn cur
     \<and> trace w' = trace w @ [EvExecute (cur_conn cur) stmt params]
     \<and> next_conn w' = next_conn w \<and> uuid_calls w' = uuid_calls w
     \<and> clock_calls w' = clock_calls w"
  by (auto simp: cursor_execute_def log_event_def split: prod.splits sum.splits)

lemma cursor_execute_Inl:
  "cursor_execute env cur stmt params w = (Inl e, w') \<Longrightarrow>
     (\<exists>msg. e = DriverError msg)
     \<and> trace w' = trace w @ [EvExecute (cur_conn cur) stmt params]
     \<and> next_conn w' = next_conn w"
  by (auto simp: cursor_execute_def log_event_def split: prod.splits sum.splits)

lemma insert_rows_Inr:
  "insert_rows env cur params rows n w = (Inr k, w') \<Longrightarrow>
     k = n + length rows
     \<and> trace w' = trace w @ map (\<lambda>row. EvExecute (cur_conn cur) insert_query (params row)) rows
     \<and> next_conn w' = next_conn w \<and> uuid_calls w' = uuid_calls w
     \<and> clock_calls w' = clock_calls w"
proof (induction rows arbitrary: cur n w)
  case Nil
  then show ?case by simp
next
  case (Cons row rest)
  from Cons.prems obtain cur1 w1 where
    ex: "cursor_execute env cur insert_query (params row) w = (Inr cur1, w1)" and
    rest: "insert_rows env cur1 params rest (Suc n) w1 = (Inr k, w')"
    by (auto split: prod.splits sum.splits)
  from cursor_execute_Inr [OF ex] Cons.IH [OF rest] show ?case by simp
qed

lemma insert_rows_Inl:
  "insert_rows env cur params rows n w = (Inl e, w') \<Longrightarrow>
     (\<exists>msg. e = DriverError msg)
     \<and> (\<exists>evs. trace w' = trace w @ evs \<and> closes c evs = 0)"
proof (induction rows arbitrary: cur n w)
  case Nil
  then show ?case by simp
next
  case (Cons row rest)
  show ?case
  proof (cases "cursor_execute env cur insert_query (params row) w")
    case (Pair r w1)
    show ?thesis
    proof (cases r)
      case (Inl e1)
      with Pair Cons.prems have "e = e1" "w' = w1" by auto
      with cursor_execute_Inl [of env cur insert_query "params row" w e1 w1] Pair Inl
      show ?thesis by (auto simp: closes_def)
    next
      case (Inr cur1)
      with Pair Cons.prems have rest: "insert_rows env cur1 params rest (Suc n) w1 = (Inl e, w')"
        by simp
      from Cons.IH [OF rest] obtain evs where
        "\<exists>msg. e = DriverError msg" "trace w' = trace w1 @ evs" "closes c evs = 0" by blast
      with cursor_execute_Inr [of env cur insert_query "params row" w cur1 w1] Pair Inr
      show ?thesis by (auto simp: closes_def)
    qed
  qed
qed

text \<open>
  Claim C3. When \<^verbatim>\<open>insert_agent_output_batch\<close> returns for a batch of \<open>N\<close> rows, it
  has called \<^verbatim>\<open>uuid.uuid4\<close> once and \<^verbatim>\<open>datetime.now\<close> once, the \<open>N\<close> inserts it
  sent carry that one \<^verbatim>\<open>run_id\<close> first and that one \<^verbatim>\<open>created_at\<close> last, in the
  order of the rows, the commit is sent once, after all of them, and the returned
  text reports \<open>N\<close> and the \<^verbatim>\<open>run_id\<close>.
\<close>

theorem insert_agent_output_batch_shared_run:
  assumes "insert_agent_output_batch env user_id question results metric_name visual_hint w
             = (Inr msg, w')"
  shows "trace w' = trace w
           @ [EvConnect (next_conn w), EvCursor (next_conn w)]
           @ map (\<lambda>row. EvExecute (next_conn w) insert_query
                    (insert_params (uuid4_value env (uuid_calls w)) user_id question
                       metric_name visual_hint (now_value env (clock_calls w)) row)) results
           @ [EvCommit (next_conn w), EvCursorClose (next_conn w), EvConnClose (next_conn w)]
         \<and> uuid_calls w' = Suc (uuid_calls w)
         \<and> clock_calls w' = Suc (clock_calls w)
         \<and> msg = ''Inserted '' @ str_nat (length results) @ '' rows successfully. run_id: ''
                 @ uuid4_value env (uuid_calls w)"
proof -
  let ?c = "next_conn w"
  let ?cur = "\<lparr>cur_conn = ?c, cur_result = NoResultSet\<rparr>"
  let ?params = "insert_params (uuid4_value env (uuid_calls w)) user_id question
                       metric_name visual_hint (now_value env (clock_calls w))"
  let ?w1 = "w\<lparr>next_conn := Suc ?c, trace := trace w @ [EvConnect ?c, EvCursor ?c],
               uuid_calls := Suc (uuid_calls w), clock_calls := Suc (clock_calls w)\<rparr>"
  from assms have conn: "db_connect env (db w) = None"
    by (auto simp: insert_agent_output_batch_def io_bind_def get_db_connection_def
             split: option.splits)
  from assms conn obtain k w2 where
    loop: "insert_rows env ?cur ?params results 0 ?w1 = (Inr k, w2)" and
    fin: "io_bind (conn_commit env ?c) (\<lambda>_. io_bind (cursor_close ?cur) (\<lambda>_.
           io_bind (conn_close ?c) (\<lambda>_.
             io_return (''Inserted '' @ str_nat k @ '' rows successfully. run_id: ''
                @ uuid4_value env (uuid_calls w))))) w2 = (Inr msg, w')"
    by (auto simp: insert_agent_output_batch_def io_bind_def get_db_connection_def
                   conn_cursor_def uuid4_def datetime_now_def log_event_def
             split: prod.splits sum.splits)
  from insert_rows_Inr [OF loop] have
    k: "k = length results" and
    t2: "trace w2 = trace w @ [EvConnect ?c, EvCursor ?c]
            @ map (\<lambda>row. EvExecute ?c insert_query (?params row)) results" and
    u2: "uuid_calls w2 = Suc (uuid_calls w)" and c2: "clock_calls w2 = Suc (clock_calls w)"
    by simp_all
  from fin k t2 u2 c2 show ?thesis
    by (auto simp: io_defs split: prod.splits sum.splits option.splits)
qed

theorem insert_agent_output_batch_shared_run_witness:
  "fst (insert_agent_output_batch (fixed_env (Inr NoResultSet)) ''ana@example.com''
          ''Sales by country'' sample_results ''sales'' ''pie'' world0)
     = Inr ''Inserted 2 rows successfully. run_id: run-0''
   \<and> trace (snd (insert_agent_output_batch (fixed_env (Inr NoResultSet)) ''ana@example.com''
          ''Sales by country'' sample_results ''sales'' ''pie'' world0))
     = [EvConnect 0, EvCursor 0,
        EvExecute 0 insert_query
          [PyStr ''run-0'', PyStr ''ana@example.com'', PyStr ''Sales by country'',
           PyStr ''United States'', PyObj ''123456.78'', PyNone, PyStr ''United States'',
           PyStr ''sales'', PyStr ''pie'', PyObj ''t0''],
        EvExecute 0 insert_query
          [PyStr ''run-0'', PyStr ''ana@example.com'', PyStr ''Sales by country'',
           PyStr ''Canada'', PyObj ''45678.9'', PyNone, PyNone,
           PyStr ''sales'', PyStr ''pie'', PyObj ''t0''],
        EvCommit 0, EvCursorClose 0, EvConnClose 0]
   \<and> uuid_calls (snd (insert_agent_output_batch (fixed_env (Inr NoResultSet)) ''ana@example.com''
          ''Sales by country'' sample_results ''sales'' ''pie'' world0)) = 1
   \<and> clock_calls (snd (insert_agent_output_batch (fixed_env (Inr NoResultSet)) ''ana@example.com''
          ''Sales by country'' sample_results ''sales'' ''pie'' world0)) = 1"
proof -
  let ?call = "insert_agent_output_batch (fixed_env (Inr NoResultSet)) ''ana@example.com''
       ''Sales by country'' sample_results ''sales'' ''pie'' world0"
  have res: "fst ?call = Inr ''Inserted 2 rows successfully. run_id: run-0''"
    by (simp add: insert_agent_output_batch_def io_defs fixed_env_def world0_def
                  sample_results_def str_nat_small)
  then have run: "?call = (Inr ''Inserted 2 rows successfully. run_id: run-0'', snd ?call)"
    by (simp add: prod_eq_iff)
  note shared = insert_agent_output_batch_shared_run [OF run]
  from shared have
    "trace (snd ?call)
     = [EvConnect 0, EvCursor 0,
        EvExecute 0 insert_query
          [PyStr ''run-0'', PyStr ''ana@example.com'', PyStr ''Sales by country'',
           PyStr ''United States'', PyObj ''123456.78'', PyNone, PyStr ''United States'',
           PyStr ''sales'', PyStr ''pie'', PyObj ''t0''],
        EvExecute 0 insert_query
          [PyStr ''run-0'', PyStr ''ana@example.com'', PyStr ''Sales by country'',
           PyStr ''Canada'', PyObj ''45678.9'', PyNone, PyNone,
           PyStr ''sales'', PyStr ''pie'', PyObj ''t0''],
        EvCommit 0, EvCursorClose 0, EvConnClose 0]"
    by (simp add: world0_def fixed_env_def insert_params_def dict_get_def sample_results_def
                  str_nat_small)
  moreover from shared have "uuid_calls (snd ?call) = 1" "clock_calls (snd ?call) = 1"
    by (simp_all add: world0_def)
  ultimately show ?thesis using res by blast
qed

text \<open>
  Claim C8. With no result rows, \<^verbatim>\<open>insert_agent_output_batch\<close> sends no insert: it
  still draws a fresh \<^verbatim>\<open>run_id\<close>, still commits, closes, and reports 0 rows with
  that \<^verbatim>\<open>run_id\<close>.
\<close>

theorem insert_agent_output_batch_empty:
  assumes "db_connect env (db w) = None" and "fst (db_commit env (db w)) = None"
  shows "fst (insert_agent_output_batch env user_id question [] metric_name visual_hint w)
           = Inr (''Inserted 0 rows successfully. run_id: '' @ uuid4_value env (uuid_calls w))
         \<and> trace (snd (insert_agent_output_batch env user_id question [] metric_name visual_hint w))
           = trace w @ [EvConnect (next_conn w), EvCursor (next_conn w), EvCommit (next_conn w),
                        EvCursorClose (next_conn w), EvConnClose (next_conn w)]
         \<and> uuid_calls (snd (insert_agent_output_batch env user_id question [] metric_name visual_hint w))
           = Suc (uuid_calls w)"
  using assms
  by (auto simp: insert_agent_output_batch_def io_defs str_nat_small
           split: prod.splits)

theorem insert_agent_output_batch_empty_witness:
  "db_connect (fixed_env (Inl ''rejected'')) (db world0) = None
   \<and> fst (db_commit (fixed_env (Inl ''rejected'')) (db world0)) = None
   \<and> fst (insert_agent_output_batch (fixed_env (Inl ''rejected'')) ''ana'' ''q'' [] ''m'' ''pie'' world0)
       = Inr ''Inserted 0 rows successfully. run_id: run-0''
   \<and> trace (snd (insert_agent_output_batch (fixed_env (Inl ''rejected'')) ''ana'' ''q'' [] ''m'' ''pie'' world0))
       = [EvConnect 0, EvCursor 0, EvCommit 0, EvCursorClose 0, EvConnClose 0]"
proof -
  have a: "db_connect (fixed_env (Inl ''rejected'')) (db world0) = None"
    by (simp add: fixed_env_def)
  have b: "fst (db_commit (fixed_env (Inl ''rejected'')) (db world0)) = None"
    by (simp add: fixed_env_def)
  from insert_agent_output_batch_empty [OF a b, of "''ana''" "''q''" "''m''" "''pie''"] a b
  show ?thesis
    by (simp add: world0_def fixed_env_def str_nat_small)
qed

section \<open>Closing the connection\<close>

lemma map_result_Inl: "map_result f xs = Inl e \<Longrightarrow> \<exists>x. f x = Inl e"
  by (induction xs) (auto split: sum.splits)

lemma row_attr_Inl: "row_attr r name = Inl e \<Longrightarrow> e = AttributeError"
  by (auto simp: row_attr_def split: option.splits)

lemma opt_row_attr_Inl: "opt_row_attr r name = Inl e \<Longrightarrow> e = AttributeError"
  by (auto simp: opt_row_attr_def row_attr_def split: option.splits)

lemma schema_line_Inl:
  "res_bind (row_attr col a) (\<lambda>name. res_bind (row_attr col b) (\<lambda>type. Inr (g name type))) = Inl e
   \<Longrightarrow> e = AttributeError"
  by (auto simp: res_bind_def row_attr_def split: option.splits sum.splits)

lemma closes_get_table_schema:
  assumes "get_table_schema env t w = (r, w')"
  shows "trace w' = trace w @ new_events w w'
         \<and> closes (next_conn w) (new_events w w')
             = (case r of Inl (DriverError msg) \<Rightarrow> 0 | Inl AttributeError \<Rightarrow> 1
                | Inl IndexError \<Rightarrow> 1 | Inl TypeError \<Rightarrow> 1 | Inr s \<Rightarrow> 1)"
  using assms
  by (auto simp: get_table_schema_def io_defs new_events_def closes_def
           split: option.splits prod.splits sum.splits result_set.splits if_splits
           dest!: map_result_Inl schema_line_Inl)

lemma relationship_line_Inl: "relationship_line rel = Inl e \<Longrightarrow> e = AttributeError"
  by (auto simp: relationship_line_def res_bind_def row_attr_def split: option.splits sum.splits)

lemma distinct_line_Inl:
  "res_bind (row_first v) (\<lambda>x. Inr (g x)) = Inl e \<Longrightarrow> e = IndexError"
  by (auto simp: res_bind_def row_first_def split: list.splits)

lemma str_item_Inl: "str_item v = Inl e \<Longrightarrow> e = TypeError"
  by (auto simp: str_item_def split: db_value.splits)

lemma join_values_Inl: "join_values sep vs = Inl e \<Longrightarrow> e = TypeError"
  by (auto simp: join_values_def res_bind_def split: sum.splits
           dest!: map_result_Inl str_item_Inl)

lemma closes_Nil [simp]: "closes c [] = 0"
  by (simp add: closes_def)

lemma closes_Cons [simp]:
  "closes c (e # es) = (if e = EvConnClose c then Suc (closes c es) else closes c es)"
  by (simp add: closes_def)

lemma closes_executes [simp]: "closes c (map (\<lambda>row. EvExecute a s (p row)) rows) = 0"
  by (induction rows) simp_all

lemma closes_append [simp]: "closes c (xs @ ys) = closes c xs + closes c ys"
  by (simp add: closes_def)

lemma new_events_append [simp]: "trace w' = trace w @ evs \<Longrightarrow> new_events w w' = evs"
  by (simp add: new_events_def)

lemma closes_execute_sql_query:
  assumes "execute_sql_query env q w = (r, w')"
  shows "trace w' = trace w @ new_events w w'
         \<and> closes (next_conn w) (new_events w w')
             = (case r of Inl (DriverError msg) \<Rightarrow> 0 | Inl AttributeError \<Rightarrow> 1
                | Inl IndexError \<Rightarrow> 1 | Inl TypeError \<Rightarrow> 1 | Inr s \<Rightarrow> 1)"
  using assms
  by (auto simp: execute_sql_query_def io_defs new_events_def closes_def Let_def
           split: option.splits prod.splits sum.splits result_set.splits if_splits)

lemma closes_list_tables:
  assumes "list_tables env w = (r, w')"
  shows "trace w' = trace w @ new_events w w'
         \<and> closes (next_conn w) (new_events w w')
             = (case r of Inl (DriverError msg) \<Rightarrow> 0 | Inl AttributeError \<Rightarrow> 1
                | Inl IndexError \<Rightarrow> 1 | Inl TypeError \<Rightarrow> 1 | Inr s \<Rightarrow> 1)"
  using assms
  by (auto simp: list_tables_def io_defs new_events_def closes_def
           split: option.splits prod.splits sum.splits result_set.splits if_splits
           dest!: map_result_Inl row_attr_Inl join_values_Inl)

lemma closes_get_database_info:
  assumes "get_database_info env w = (r, w')"
  shows "trace w' = trace w @ new_events w w'
         \<and> closes (next_conn w) (new_events w w')
             = (case r of Inl (DriverError msg) \<Rightarrow> 0 | Inl AttributeError \<Rightarrow> 1
                | Inl IndexError \<Rightarrow> 1 | Inl TypeError \<Rightarrow> 1 | Inr s \<Rightarrow> 1)"
  using assms
  by (auto simp: get_database_info_def io_defs new_events_def closes_def
           split: option.splits prod.splits sum.splits result_set.splits if_splits list.splits
           dest!: opt_row_attr_Inl)

lemma closes_get_table_row_count:
  assumes "get_table_row_count env t w = (r, w')"
  shows "trace w' = trace w @ new_events w w'
         \<and> closes (next_conn w) (new_events w w')
             = (case r of Inl (DriverError msg) \<Rightarrow> 0 | Inl AttributeError \<Rightarrow> 1
                | Inl IndexError \<Rightarrow> 1 | Inl TypeError \<Rightarrow> 1 | Inr s \<Rightarrow> 1)"
  using assms
  by (auto simp: get_table_row_count_def io_defs new_events_def closes_def
           split: option.splits prod.splits sum.splits result_set.splits if_splits list.splits
           dest!: opt_row_attr_Inl)

lemma closes_get_primary_keys:
  assumes "get_primary_keys env t w = (r, w')"
  shows "trace w' = trace w @ new_events w w'
         \<and> closes (next_conn w) (new_events w w')
             = (case r of Inl (DriverError msg) \<Rightarrow> 0 | Inl AttributeError \<Rightarrow> 1
                | Inl IndexError \<Rightarrow> 1 | Inl TypeError \<Rightarrow> 1 | Inr s \<Rightarrow> 1)"
  using assms
  by (auto simp: get_primary_keys_def io_defs new_events_def closes_def
           split: option.splits prod.splits sum.splits result_set.splits if_splits
           dest!: map_result_Inl row_attr_Inl join_values_Inl)

lemma closes_get_distinct_values:
  assumes "get_distinct_values env t c w = (r, w')"
  shows "trace w' = trace w @ new_events w w'
         \<and> closes (next_conn w) (new_events w w')
             = (case r of Inl (DriverError msg) \<Rightarrow> 0 | Inl AttributeError \<Rightarrow> 1
                | Inl IndexError \<Rightarrow> 1 | Inl TypeError \<Rightarrow> 1 | Inr s \<Rightarrow> 1)"
  using assms
  by (auto simp: get_distinct_values_def io_defs new_events_def closes_def
           split: option.splits prod.splits sum.splits result_set.splits if_splits
           dest!: map_result_Inl distinct_line_Inl)

lemma closes_get_table_relationships:
  assumes "get_table_relationships env w = (r, w')"
  shows "trace w' = trace w @ new_events w w'
         \<and> closes (next_conn w) (new_events w w')
             = (case r of Inl (DriverError msg) \<Rightarrow> 0 | Inl AttributeError \<Rightarrow> 1
                | Inl IndexError \<Rightarrow> 1 | Inl TypeError \<Rightarrow> 1 | Inr s \<Rightarrow> 1)"
  using assms
  by (auto simp: get_table_relationships_def io_defs new_events_def closes_def
           split: option.splits prod.splits sum.splits result_set.splits if_splits
           dest!: map_result_Inl relationship_line_Inl)

lemma closes_insert_agent_output_batch:
  assumes "insert_agent_output_batch env u q rows m v w = (r, w')"
  shows "trace w' = trace w @ new_events w w'
         \<and> closes (next_conn w) (new_events w w')
             = (case r of Inl (DriverError msg) \<Rightarrow> 0 | Inl AttributeError \<Rightarrow> 1
                | Inl IndexError \<Rightarrow> 1 | Inl TypeError \<Rightarrow> 1 | Inr s \<Rightarrow> 1)"
proof (cases "db_connect env (db w)")
  case (Some msg)
  with assms show ?thesis
    by (auto simp: insert_agent_output_batch_def io_bind_def get_db_connection_def
                   new_events_def closes_def)
next
  case None
  let ?c = "next_conn w"
  let ?cur = "\<lparr>cur_conn = ?c, cur_result = NoResultSet\<rparr>"
  let ?params = "insert_params (uuid4_value env (uuid_calls w)) u q m v
                   (now_value env (clock_calls w))"
  let ?w1 = "w\<lparr>next_conn := Suc ?c, trace := trace w @ [EvConnect ?c, EvCursor ?c],
               uuid_calls := Suc (uuid_calls w), clock_calls := Suc (clock_calls w)\<rparr>"
  obtain lr w2 where loop: "insert_rows env ?cur ?params rows 0 ?w1 = (lr, w2)"
    by (cases "insert_rows env ?cur ?params rows 0 ?w1") blast
  show ?thesis
  proof (cases lr)
    case (Inl e)
    with assms None loop have rw: "r = Inl e" "w' = w2"
      by (auto simp: insert_agent_output_batch_def io_bind_def get_db_connection_def
                     conn_cursor_def uuid4_def datetime_now_def log_event_def)
    from insert_rows_Inl [of env ?cur ?params rows 0 ?w1 e w2 ?c] loop Inl
    obtain msg evs where "e = DriverError msg" "trace w2 = trace ?w1 @ evs" "closes ?c evs = 0"
      by auto
    with rw show ?thesis by simp
  next
    case (Inr k)
    from insert_rows_Inr [of env ?cur ?params rows 0 ?w1 k w2] loop Inr
    have t2: "trace w2 = trace w @ [EvConnect ?c, EvCursor ?c]
                @ map (\<lambda>row. EvExecute ?c insert_query (?params row)) rows"
      by simp
    from assms None loop Inr have
      fin: "io_bind (conn_commit env ?c) (\<lambda>_. io_bind (cursor_close ?cur) (\<lambda>_.
             io_bind (conn_close ?c) (\<lambda>_.
               io_return (''Inserted '' @ str_nat k @ '' rows successfully. run_id: ''
                  @ uuid4_value env (uuid_calls w))))) w2 = (r, w')"
      by (auto simp: insert_agent_output_batch_def io_bind_def get_db_connection_def
                     conn_cursor_def uuid4_def datetime_now_def log_event_def)
    show ?thesis
    proof (cases "fst (db_commit env (db w2))")
      case None
      with fin t2 have "r = Inr (''Inserted '' @ str_nat k @ '' rows successfully. run_id: ''
                  @ uuid4_value env (uuid_calls w))"
        and "trace w' = trace w @ ([EvConnect ?c, EvCursor ?c]
                @ map (\<lambda>row. EvExecute ?c insert_query (?params row)) rows
                @ [EvCommit ?c, EvCursorClose ?c, EvConnClose ?c])"
        by (auto simp: io_defs split: prod.splits)
      then show ?thesis by simp
    next
      case (Some msg)
      with fin t2 have "r = Inl (DriverError msg)"
        and "trace w' = trace w @ ([EvConnect ?c, EvCursor ?c]
                @ map (\<lambda>row. EvExecute ?c insert_query (?params row)) rows
                @ [EvCommit ?c])"
        by (auto simp: io_defs split: prod.splits)
      then show ?thesis by simp
    qed
  qed
qed

text \<open>
  Claim C1, as the code has it. No tool guards its close with a \<^verbatim>\<open>finally\<close>: the
  close is a statement after the fetch (after the commit, for the batch insert). So
  the connection a call opened is closed exactly once when the call returns a text,
  and also when it raises on the fetched data after the close
  (\<^verbatim>\<open>AttributeError\<close>, \<^verbatim>\<open>IndexError\<close>, \<^verbatim>\<open>TypeError\<close>); it is never closed
  twice; and it is not closed at all when the driver raises in \<^verbatim>\<open>execute\<close>,
  \<^verbatim>\<open>fetchall\<close>, \<^verbatim>\<open>fetchone\<close> or \<^verbatim>\<open>commit\<close> (nor is there one to close when
  \<^verbatim>\<open>connect\<close> raises).
\<close>

theorem connection_closed_unless_driver_raises:
  assumes "opens_connection call" and "call_tool env call w = (r, w')"
  shows "trace w' = trace w @ new_events w w'
         \<and> closes (next_conn w) (new_events w w')
             = (case r of Inl (DriverError msg) \<Rightarrow> 0 | Inl AttributeError \<Rightarrow> 1
                | Inl IndexError \<Rightarrow> 1 | Inl TypeError \<Rightarrow> 1 | Inr s \<Rightarrow> 1)"
proof (cases call)
  case (ExecuteSqlQuery q)
  with assms(2) show ?thesis using closes_execute_sql_query by simp
next
  case (GetTableSchema t)
  with assms(2) show ?thesis using closes_get_table_schema by simp
next
  case ListTables
  with assms(2) show ?thesis using closes_list_tables by simp
next
  case GetDatabaseInfo
  with assms(2) show ?thesis using closes_get_database_info by simp
next
  case (GetTableRowCount t)
  with assms(2) show ?thesis using closes_get_table_row_count by simp
next
  case (GetPrimaryKeys t)
  with assms(2) show ?thesis using closes_get_primary_keys by simp
next
  case (GetDistinctValues t c)
  with assms(2) show ?thesis using closes_get_distinct_values by simp
next
  case GetTableRelationships
  with assms(2) show ?thesis using closes_get_table_relationships by simp
next
  case (InsertAgentOutputBatch u q rs m v)
  with assms(2) show ?thesis using closes_insert_agent_output_batch by simp
next
  case (GeneratePowerbiUrl r v)
  with assms(1) show ?thesis by simp
qed

theorem connection_closed_unless_driver_raises_witness:
  "opens_connection (GetTableRowCount ''Customer'')
   \<and> call_tool (fixed_env (Inr (Rows [[(''TotalRows'', DbVal ''847'' ''847'')]])))
         (GetTableRowCount ''Customer'') world0
       = (Inr (''Table 'Customer' has 847 rows.''),
          world0\<lparr>trace := [EvConnect 0, EvCursor 0,
                             EvExecute 0 (row_count_query ''Customer'') [],
                             EvFetchOne 0, EvCursorClose 0, EvConnClose 0],
                   next_conn := 1\<rparr>)
   \<and> closes 0 (new_events world0
        (world0\<lparr>trace := [EvConnect 0, EvCursor 0,
                             EvExecute 0 (row_count_query ''Customer'') [],
                             EvFetchOne 0, EvCursorClose 0, EvConnClose 0],
                   next_conn := 1\<rparr>)) = 1
   \<and> opens_connection ListTables
   \<and> call_tool (fixed_env (Inr (Rows [[(''TABLE_NAME'', DbNull)]]))) ListTables world0
       = (Inl TypeError,
          world0\<lparr>trace := [EvConnect 0, EvCursor 0, EvExecute 0 list_tables_query [],
                             EvFetchAll 0, EvCursorClose 0, EvConnClose 0],
                   next_conn := 1\<rparr>)
   \<and> closes 0 (new_events world0
        (world0\<lparr>trace := [EvConnect 0, EvCursor 0, EvExecute 0 list_tables_query [],
                             EvFetchAll 0, EvCursorClose 0, EvConnClose 0],
                   next_conn := 1\<rparr>)) = 1"
proof -
  have op: "opens_connection (GetTableRowCount ''Customer'')" by simp
  have run: "call_tool (fixed_env (Inr (Rows [[(''TotalRows'', DbVal ''847'' ''847'')]])))
         (GetTableRowCount ''Customer'') world0
       = (Inr (''Table 'Customer' has 847 rows.''),
          world0\<lparr>trace := [EvConnect 0, EvCursor 0,
                             EvExecute 0 (row_count_query ''Customer'') [],
                             EvFetchOne 0, EvCursorClose 0, EvConnClose 0],
                   next_conn := 1\<rparr>)"
    by (simp add: get_table_row_count_def io_defs fixed_env_def world0_def opt_row_attr_def
                  row_attr_def)
  have op2: "opens_connection ListTables" by simp
  have run2: "call_tool (fixed_env (Inr (Rows [[(''TABLE_NAME'', DbNull)]]))) ListTables world0
       = (Inl TypeError,
          world0\<lparr>trace := [EvConnect 0, EvCursor 0, EvExecute 0 list_tables_query [],
                             EvFetchAll 0, EvCursorClose 0, EvConnClose 0],
                   next_conn := 1\<rparr>)"
    by (simp add: list_tables_def io_defs fixed_env_def world0_def row_attr_def
                  join_values_def str_item_def res_bind_def)
  from connection_closed_unless_driver_raises [OF op run]
       connection_closed_unless_driver_raises [OF op2 run2] op run op2 run2
  show ?thesis
    by (simp add: world0_def)
qed

theorem connection_left_open_counterexample:
  "call_tool (fixed_env (Inl ''42000 Syntax error'')) (ExecuteSqlQuery ''SELEC 1'') world0
     = (Inl (DriverError ''42000 Syntax error''),
        world0\<lparr>trace := [EvConnect 0, EvCursor 0, EvExecute 0 ''SELEC 1'' []],
                 next_conn := 1\<rparr>)
   \<and> closes 0 [EvConnect 0, EvCursor 0, EvExecute 0 ''SELEC 1'' []] = 0"
  by (simp add: execute_sql_query_def io_defs fixed_env_def world0_def closes_def)

section \<open>Tables that do not exist\<close>

text \<open>
  For a table that is not in the catalog, and a name whose own characters leave the
  statement as it was written, the server has no row in the catalog views and rejects
  a statement that reads from the table. The four tools meet these two answers
  differently: the two that ask the catalog views see an empty row set, the two that
  read from the table see the driver raise.
\<close>

lemma empty_db_env_simps:
  "db_connect empty_db_env d = None"
  "db_execute empty_db_env d (table_schema_query t) ps = (Inr (Rows []), d)"
  "db_execute empty_db_env d (primary_keys_query t) ps = (Inr (Rows []), d)"
  "db_execute empty_db_env d (row_count_query t) ps = (Inl ''42S02 Invalid object name'', d)"
  "db_execute empty_db_env d (distinct_values_query t c) ps
     = (Inl ''42S02 Invalid object name'', d)"
  by (simp_all add: empty_db_env_def fixed_env_def table_schema_query_def
        primary_keys_query_def row_count_query_def distinct_values_query_def)

lemma get_table_row_count_text:
  "fst (get_table_row_count env t w) = Inr s \<Longrightarrow>
     \<exists>n. s = ''Table '' @ [CHR 0x27] @ t @ [CHR 0x27] @ '' has '' @ n @ '' rows.''"
  by (auto simp: get_table_row_count_def io_defs opt_row_attr_def row_attr_def
           split: option.splits prod.splits sum.splits result_set.splits list.splits)

text \<open>
  Claim C2, as the code has it. When the catalog-view statements that
  \<^verbatim>\<open>get_table_schema\<close> and \<^verbatim>\<open>get_primary_keys\<close> send for a table name return an
  empty row set, these two tools return their "not found" messages rather than
  raising. When the server rejects the statements that \<^verbatim>\<open>get_table_row_count\<close> and
  \<^verbatim>\<open>get_distinct_values\<close> send for the name, these two tools raise the driver's
  error instead of returning a message: no tool catches an exception.
\<close>

theorem missing_table_outcomes:
  assumes "db_connect env (db w) = None"
      and "fst (db_execute env (db w) (table_schema_query t) []) = Inr (Rows [])"
      and "fst (db_execute env (db w) (primary_keys_query t) []) = Inr (Rows [])"
      and "fst (db_execute env (db w) (row_count_query t) []) = Inl msg1"
      and "fst (db_execute env (db w) (distinct_values_query t c) []) = Inl msg2"
  shows "fst (get_table_schema env t w)
           = Inr (''No schema found for table '' @ [CHR 0x27] @ t @ [CHR 0x27] @ ''.'')
         \<and> fst (get_primary_keys env t w)
           = Inr (''No primary keys found for table '' @ [CHR 0x27] @ t @ [CHR 0x27] @ ''.'')
         \<and> fst (get_table_row_count env t w) = Inl (DriverError msg1)
         \<and> fst (get_distinct_values env t c w) = Inl (DriverError msg2)"
proof -
  from assms(1,2) have "fst (get_table_schema env t w)
           = Inr (''No schema found for table '' @ [CHR 0x27] @ t @ [CHR 0x27] @ ''.'')"
    by (auto simp: get_table_schema_def io_defs split: prod.splits sum.splits)
  moreover from assms(1,3) have "fst (get_primary_keys env t w)
           = Inr (''No primary keys found for table '' @ [CHR 0x27] @ t @ [CHR 0x27] @ ''.'')"
    by (auto simp: get_primary_keys_def io_defs split: prod.splits sum.splits)
  moreover from assms(1,4) have "fst (get_table_row_count env t w) = Inl (DriverError msg1)"
    by (auto simp: get_table_row_count_def io_defs split: prod.splits sum.splits)
  moreover from assms(1,5) have "fst (get_distinct_values env t c w) = Inl (DriverError msg2)"
    by (auto simp: get_distinct_values_def io_defs split: prod.splits sum.splits)
  ultimately show ?thesis by blast
qed

theorem missing_table_outcomes_witness:
  "fst (get_table_schema empty_db_env ''Customer'' world0)
     = Inr ''No schema found for table 'Customer'.''
   \<and> fst (get_primary_keys empty_db_env ''Customer'' world0)
     = Inr ''No primary keys found for table 'Customer'.''
   \<and> fst (get_table_row_count empty_db_env ''Customer'' world0)
     = Inl (DriverError ''42S02 Invalid object name'')
   \<and> fst (get_distinct_values empty_db_env ''Customer'' ''City'' world0)
     = Inl (DriverError ''42S02 Invalid object name'')"
  using missing_table_outcomes [of empty_db_env world0 "''Customer''"
          "''42S02 Invalid object name''" "''City''" "''42S02 Invalid object name''"]
  by (simp add: empty_db_env_simps)

theorem missing_table_raises_counterexample:
  "get_table_row_count empty_db_env ''Customer'' world0
     = (Inl (DriverError ''42S02 Invalid object name''),
        world0\<lparr>trace := [EvConnect 0, EvCursor 0,
                           EvExecute 0 ''SELECT COUNT(*) AS TotalRows FROM [SalesLT].[Customer]'' []],
                 next_conn := 1\<rparr>)
   \<and> get_distinct_values empty_db_env ''Customer'' ''City'' world0
     = (Inl (DriverError ''42S02 Invalid object name''),
        world0\<lparr>trace := [EvConnect 0, EvCursor 0,
                           EvExecute 0 ''SELECT DISTINCT [City] FROM [SalesLT].[Customer]'' []],
                 next_conn := 1\<rparr>)"
  by (simp add: get_table_row_count_def get_distinct_values_def io_defs empty_db_env_def
                fixed_env_def world0_def row_count_query_def distinct_values_query_def)

section \<open>Identifiers in the statement text\<close>

text \<open>
  Claim C4, as the code has it. The tools that take a table or column name check
  nothing: whatever characters the name has, inside or outside \<^verbatim>\<open>[A-Za-z0-9_]\<close>,
  once the connection is open the first thing each of them does is to send the
  statement with the name spliced in as it was given. No check of the name comes
  before the statement.
\<close>

theorem identifiers_sent_unchecked:
  assumes "db_connect env (db w) = None"
  shows "take 3 (new_events w (snd (get_table_schema env t w)))
           = [EvConnect (next_conn w), EvCursor (next_conn w),
              EvExecute (next_conn w)
                (''SELECT COLUMN_NAME, DATA_TYPE FROM INFORMATION_SCHEMA.COLUMNS WHERE TABLE_NAME = ''
                 @ [CHR 0x27] @ t @ [CHR 0x27]) []]
         \<and> take 3 (new_events w (snd (get_primary_keys env t w)))
           = [EvConnect (next_conn w), EvCursor (next_conn w),
              EvExecute (next_conn w)
                (''\<newline>        SELECT COLUMN_NAME \<newline>        FROM INFORMATION_SCHEMA.KEY_COLUMN_USAGE \<newline>        WHERE OBJECTPROPERTY(OBJECT_ID(CONSTRAINT_SCHEMA + '.' + CONSTRAINT_NAME), 'IsPrimaryKey') = 1 \<newline>        AND TABLE_NAME = ''
                 @ [CHR 0x27] @ t @ [CHR 0x27] @ ''\<newline>    '') []]
         \<and> take 3 (new_events w (snd (get_table_row_count env t w)))
           = [EvConnect (next_conn w), EvCursor (next_conn w),
              EvExecute (next_conn w)
                (''SELECT COUNT(*) AS TotalRows FROM [SalesLT].['' @ t @ '']'') []]
         \<and> take 3 (new_events w (snd (get_distinct_values env t c w)))
           = [EvConnect (next_conn w), EvCursor (next_conn w),
              EvExecute (next_conn w)
                (''SELECT DISTINCT ['' @ c @ ''] FROM [SalesLT].['' @ t @ '']'') []]"
proof -
  from assms have "take 3 (new_events w (snd (get_table_schema env t w)))
           = [EvConnect (next_conn w), EvCursor (next_conn w),
              EvExecute (next_conn w) (table_schema_query t) []]"
    by (auto simp: get_table_schema_def io_defs new_events_def
             split: prod.splits sum.splits result_set.splits)
  moreover from assms have "take 3 (new_events w (snd (get_primary_keys env t w)))
           = [EvConnect (next_conn w), EvCursor (next_conn w),
              EvExecute (next_conn w) (primary_keys_query t) []]"
    by (auto simp: get_primary_keys_def io_defs new_events_def
             split: prod.splits sum.splits result_set.splits)
  moreover from assms have "take 3 (new_events w (snd (get_table_row_count env t w)))
           = [EvConnect (next_conn w), EvCursor (next_conn w),
              EvExecute (next_conn w) (row_count_query t) []]"
    by (auto simp: get_table_row_count_def io_defs new_events_def
             split: prod.splits sum.splits result_set.splits list.splits)
  moreover from assms have "take 3 (new_events w (snd (get_distinct_values env t c w)))
           = [EvConnect (next_conn w), EvCursor (next_conn w),
              EvExecute (next_conn w) (distinct_values_query t c) []]"
    by (auto simp: get_distinct_values_def io_defs new_events_def
             split: prod.splits sum.splits result_set.splits)
  ultimately show ?thesis
    by (simp only: table_schema_query_def primary_keys_query_def row_count_query_def
                   distinct_values_query_def)
qed

theorem identifiers_sent_unchecked_witness:
  "db_connect (fixed_env (Inr (Rows []))) (db world0) = None
   \<and> take 3 (new_events world0
         (snd (get_table_row_count (fixed_env (Inr (Rows []))) ''a b;c'' world0)))
       = [EvConnect 0, EvCursor 0,
          EvExecute 0 ''SELECT COUNT(*) AS TotalRows FROM [SalesLT].[a b;c]'' []]
   \<and> take 3 (new_events world0
         (snd (get_distinct_values (fixed_env (Inr (Rows []))) ''a b;c'' ''x]y'' world0)))
       = [EvConnect 0, EvCursor 0,
          EvExecute 0 ''SELECT DISTINCT [x]y] FROM [SalesLT].[a b;c]'' []]
   \<and> take 3 (new_events world0
         (snd (get_table_schema (fixed_env (Inr (Rows []))) ''a b;c'' world0)))
       = [EvConnect 0, EvCursor 0,
          EvExecute 0
            (''SELECT COLUMN_NAME, DATA_TYPE FROM INFORMATION_SCHEMA.COLUMNS WHERE TABLE_NAME = 'a b;c''
             @ [CHR 0x27]) []]"
proof -
  have a: "db_connect (fixed_env (Inr (Rows []))) (db world0) = None"
    by (simp add: fixed_env_def)
  from identifiers_sent_unchecked [OF a, of "''a b;c''" "''x]y''"] a show ?thesis
    by (simp add: world0_def)
qed

theorem unchecked_identifier_counterexample:
  "get_table_row_count (fixed_env (Inr (Rows [[(''TotalRows'', DbVal ''0'' ''0'')]])))
       ''x]; DROP TABLE [SalesLT].[Customer'' world0
     = (Inr ''Table 'x]; DROP TABLE [SalesLT].[Customer' has 0 rows.'',
        world0\<lparr>trace :=
            [EvConnect 0, EvCursor 0,
             EvExecute 0
               ''SELECT COUNT(*) AS TotalRows FROM [SalesLT].[x]; DROP TABLE [SalesLT].[Customer]'' [],
             EvFetchOne 0, EvCursorClose 0, EvConnClose 0],
          next_conn := 1\<rparr>)"
  by (simp add: get_table_row_count_def io_defs fixed_env_def world0_def row_count_query_def
                opt_row_attr_def row_attr_def)

section \<open>The filter value of the URL\<close>

lemma url_decode_no_percent: "CHR ''%'' \<notin> set s \<Longrightarrow> url_decode s = s"
  by (induction s rule: url_decode.induct) auto

lemma hex_val_digits: "hex_val CHR ''2'' = Some 2" "hex_val CHR ''0'' = Some 0"
  by code_simp+

lemma char_of_32: "char_of (32::nat) = CHR '' ''"
  by code_simp

lemma url_decode_filter_text:
  "url_decode (''agent_output/run_id%20eq%20'' @ rest)
     = ''agent_output/run_id eq '' @ url_decode rest"
  by (simp add: hex_val_digits char_of_32)

lemma page_name_chars:
  "CHR ''#'' \<notin> set (page_name_of v)" "CHR ''&'' \<notin> set (page_name_of v)"
  "CHR ''='' \<notin> set (page_name_of v)" "CHR ''?'' \<notin> set (page_name_of v)"
  by (simp_all add: page_name_of_def VISUAL_PAGE_MAP_def)

lemma split_on_absent: "c \<notin> set xs \<Longrightarrow> split_on c xs = [xs]"
  by (induction xs) auto

lemma split_on_first: "c \<notin> set xs \<Longrightarrow> split_on c (xs @ c # ys) = xs # split_on c ys"
  by (induction xs) auto

lemma takeWhile_absent: "c \<notin> set xs \<Longrightarrow> takeWhile (\<lambda>ch. ch \<noteq> c) xs = xs"
  by (induction xs) auto

lemma dropWhile_first:
  "c \<notin> set xs \<Longrightarrow> dropWhile (\<lambda>ch. ch \<noteq> c) (xs @ c # ys) = c # ys"
  by (induction xs) auto

lemma takeWhile_first:
  "c \<notin> set xs \<Longrightarrow> takeWhile (\<lambda>ch. ch \<noteq> c) (xs @ c # ys) = xs"
  by (induction xs) auto

lemma url_filter_value_of_url:
  assumes ws: "CHR ''?'' \<notin> set ws" "CHR ''#'' \<notin> set ws"
      and rep: "CHR ''?'' \<notin> set rep" "CHR ''#'' \<notin> set rep"
      and page: "CHR ''#'' \<notin> set page" "CHR ''&'' \<notin> set page" "CHR ''='' \<notin> set page"
      and fv: "CHR ''#'' \<notin> set fv" "CHR ''&'' \<notin> set fv"
  shows "url_filter_value (''https://app.powerbi.com/groups/'' @ ws @ ''/reports/'' @ rep
            @ ''?pageName='' @ page @ ''&filter='' @ fv) = Some (url_decode fv)"
proof -
  let ?head = "''https://app.powerbi.com/groups/'' @ ws @ ''/reports/'' @ rep"
  let ?p1 = "''pageName'' @ CHR ''='' # page"
  let ?p2 = "''filter'' @ CHR ''='' # fv"
  let ?query = "?p1 @ CHR ''&'' # ?p2"
  let ?url = "?head @ CHR ''?'' # ?query"
  have url: "''https://app.powerbi.com/groups/'' @ ws @ ''/reports/'' @ rep
            @ ''?pageName='' @ page @ ''&filter='' @ fv = ?url"
    by simp
  have "CHR ''#'' \<notin> set ?url" using ws rep page fv by simp
  then have nofrag: "takeWhile (\<lambda>ch. ch \<noteq> CHR ''#'') ?url = ?url"
    by (rule takeWhile_absent)
  have "CHR ''?'' \<notin> set ?head" using ws rep by simp
  then have "dropWhile (\<lambda>ch. ch \<noteq> CHR ''?'') ?url = CHR ''?'' # ?query"
    by (rule dropWhile_first)
  with nofrag have query: "url_query ?url = ?query"
    by (simp only: url_query_def list.case)
  have "CHR ''&'' \<notin> set ?p1" using page by simp
  then have "split_on CHR ''&'' ?query = ?p1 # split_on CHR ''&'' ?p2"
    by (rule split_on_first)
  moreover have "CHR ''&'' \<notin> set ?p2" using fv by simp
  then have "split_on CHR ''&'' ?p2 = [?p2]" by (rule split_on_absent)
  ultimately have params: "split_on CHR ''&'' ?query = [?p1, ?p2]" by simp
  have d1: "dropWhile (\<lambda>ch. ch \<noteq> CHR ''='') ?p1 = CHR ''='' # page"
    and t1: "takeWhile (\<lambda>ch. ch \<noteq> CHR ''='') ?p1 = ''pageName''"
    and d2: "dropWhile (\<lambda>ch. ch \<noteq> CHR ''='') ?p2 = CHR ''='' # fv"
    and t2: "takeWhile (\<lambda>ch. ch \<noteq> CHR ''='') ?p2 = ''filter''"
    by simp_all
  have "find_param ''filter'' [?p1, ?p2] = Some fv"
    by (simp only: find_param.simps d1 t1 d2 t2 list.case) simp
  with query params show ?thesis
    by (simp only: url url_filter_value_def option.map)
qed

text \<open>
  Claim C5, as the code has it. The run identifier is put into the URL as it was
  given; only the two spaces of the fixed filter text are written as \<^verbatim>\<open>%20\<close>. So
  the reader of the URL gets the filter expression on the original run identifier
  back when nothing in the run identifier is read as URL syntax: no \<^verbatim>\<open>%\<close> (an
  escape), no \<^verbatim>\<open>&\<close> (the end of the parameter) and no \<^verbatim>\<open>#\<close> (the start of the
  fragment), as in the UUID texts of \<^verbatim>\<open>insert_agent_output_batch\<close>; and when the
  workspace and report identifiers of the environment, which stand before the
  query, hold no \<^verbatim>\<open>?\<close> and no \<^verbatim>\<open>#\<close>.
\<close>

theorem filter_value_round_trip:
  assumes "CHR ''%'' \<notin> set run_id" and "CHR ''&'' \<notin> set run_id" and "CHR ''#'' \<notin> set run_id"
      and "CHR ''?'' \<notin> set (fstr_opt (getenv env ''WORKSPACE_ID''))"
      and "CHR ''#'' \<notin> set (fstr_opt (getenv env ''WORKSPACE_ID''))"
      and "CHR ''?'' \<notin> set (fstr_opt (getenv env ''REPORT_ID''))"
      and "CHR ''#'' \<notin> set (fstr_opt (getenv env ''REPORT_ID''))"
  shows "\<exists>url. fst (generate_powerbi_url env run_id visual_hint w) = Inr url
           \<and> url_filter_value url
               = Some (''agent_output/run_id eq '' @ [CHR 0x27] @ run_id @ [CHR 0x27])"
proof -
  let ?fv = "''agent_output/run_id%20eq%20'' @ [CHR 0x27] @ run_id @ [CHR 0x27]"
  let ?url = "''https://app.powerbi.com/groups/'' @ fstr_opt (getenv env ''WORKSPACE_ID'')
                @ ''/reports/'' @ fstr_opt (getenv env ''REPORT_ID'')
                @ ''?pageName='' @ page_name_of visual_hint @ ''&filter='' @ ?fv"
  have ret: "fst (generate_powerbi_url env run_id visual_hint w) = Inr ?url"
    by (simp add: generate_powerbi_url_def io_return_def Let_def)
  have "CHR ''#'' \<notin> set ?fv" "CHR ''&'' \<notin> set ?fv" using assms(2,3) by simp_all
  with assms(4-7) have "url_filter_value ?url = Some (url_decode ?fv)"
    by (intro url_filter_value_of_url page_name_chars)
  moreover from assms(1) have "CHR ''%'' \<notin> set ([CHR 0x27] @ run_id @ [CHR 0x27])" by simp
  then have "url_decode ([CHR 0x27] @ run_id @ [CHR 0x27]) = [CHR 0x27] @ run_id @ [CHR 0x27]"
    by (rule url_decode_no_percent)
  then have "url_decode ?fv = ''agent_output/run_id eq '' @ [CHR 0x27] @ run_id @ [CHR 0x27]"
    using url_decode_filter_text [of "[CHR 0x27] @ run_id @ [CHR 0x27]"] by simp
  ultimately show ?thesis using ret by simp
qed

theorem filter_value_round_trip_witness:
  "CHR ''%'' \<notin> set ''3f2b8c1e-0d4a-4b6f-9a77-5e1c2d3f4a5b''
   \<and> CHR ''&'' \<notin> set ''3f2b8c1e-0d4a-4b6f-9a77-5e1c2d3f4a5b''
   \<and> CHR ''#'' \<notin> set ''3f2b8c1e-0d4a-4b6f-9a77-5e1c2d3f4a5b''
   \<and> fstr_opt (getenv (fixed_env (Inr (Rows []))) ''WORKSPACE_ID'') = ''ws1''
   \<and> fstr_opt (getenv (fixed_env (Inr (Rows []))) ''REPORT_ID'') = ''rep1''
   \<and> (\<exists>url. fst (generate_powerbi_url (fixed_env (Inr (Rows [])))
                   ''3f2b8c1e-0d4a-4b6f-9a77-5e1c2d3f4a5b'' ''linea'' world0) = Inr url
           \<and> url_filter_value url
               = Some (''agent_output/run_id eq '' @ [CHR 0x27]
                       @ ''3f2b8c1e-0d4a-4b6f-9a77-5e1c2d3f4a5b'' @ [CHR 0x27]))"
proof -
  have a: "CHR ''%'' \<notin> set ''3f2b8c1e-0d4a-4b6f-9a77-5e1c2d3f4a5b''"
          "CHR ''&'' \<notin> set ''3f2b8c1e-0d4a-4b6f-9a77-5e1c2d3f4a5b''"
          "CHR ''#'' \<notin> set ''3f2b8c1e-0d4a-4b6f-9a77-5e1c2d3f4a5b''"
    by simp_all
  have ws: "fstr_opt (getenv (fixed_env (Inr (Rows []))) ''WORKSPACE_ID'') = ''ws1''"
    and rep: "fstr_opt (getenv (fixed_env (Inr (Rows []))) ''REPORT_ID'') = ''rep1''"
    by (simp_all add: fixed_env_def fstr_opt_def)
  have b: "CHR ''?'' \<notin> set (fstr_opt (getenv (fixed_env (Inr (Rows []))) ''WORKSPACE_ID''))"
          "CHR ''#'' \<notin> set (fstr_opt (getenv (fixed_env (Inr (Rows []))) ''WORKSPACE_ID''))"
          "CHR ''?'' \<notin> set (fstr_opt (getenv (fixed_env (Inr (Rows []))) ''REPORT_ID''))"
          "CHR ''#'' \<notin> set (fstr_opt (getenv (fixed_env (Inr (Rows []))) ''REPORT_ID''))"
    by (simp_all add: ws rep)
  from filter_value_round_trip [OF a b, of "''linea''" world0] a ws rep show ?thesis
    by blast
qed

theorem filter_value_not_encoded_counterexample:
  "fst (generate_powerbi_url (fixed_env (Inr (Rows []))) ''%41'' ''pie'' world0)
     = Inr (''https://app.powerbi.com/groups/ws1/reports/rep1?pageName=PieChart''
            @ ''&filter='' @ ''agent_output/run_id%20eq%20'%41'' @ [CHR 0x27])
   \<and> url_filter_value (''https://app.powerbi.com/groups/ws1/reports/rep1?pageName=PieChart''
            @ ''&filter='' @ ''agent_output/run_id%20eq%20'%41'' @ [CHR 0x27])
     = Some (''agent_output/run_id eq 'A'' @ [CHR 0x27])
   \<and> url_decode (''agent_output/run_id%20eq%20'%41'' @ [CHR 0x27])
     = ''agent_output/run_id eq 'A'' @ [CHR 0x27]
   \<and> url_decode (''agent_output/run_id%20eq%20'%41'' @ [CHR 0x27])
     \<noteq> ''agent_output/run_id eq '%41'' @ [CHR 0x27]
   \<and> fst (generate_powerbi_url (fixed_env (Inr (Rows []))) ''a&b'' ''pie'' world0)
     = Inr (''https://app.powerbi.com/groups/ws1/reports/rep1?pageName=PieChart''
            @ ''&filter='' @ ''agent_output/run_id%20eq%20'a&b'' @ [CHR 0x27])
   \<and> url_filter_value (''https://app.powerbi.com/groups/ws1/reports/rep1?pageName=PieChart''
            @ ''&filter='' @ ''agent_output/run_id%20eq%20'a&b'' @ [CHR 0x27])
     = Some ''agent_output/run_id eq 'a''
   \<and> fst (generate_powerbi_url (fixed_env (Inr (Rows []))) ''a#b'' ''pie'' world0)
     = Inr (''https://app.powerbi.com/groups/ws1/reports/rep1?pageName=PieChart''
            @ ''&filter='' @ ''agent_output/run_id%20eq%20'a#b'' @ [CHR 0x27])
   \<and> url_filter_value (''https://app.powerbi.com/groups/ws1/reports/rep1?pageName=PieChart''
            @ ''&filter='' @ ''agent_output/run_id%20eq%20'a#b'' @ [CHR 0x27])
     = Some ''agent_output/run_id eq 'a''"
proof -
  have u: "fst (generate_powerbi_url (fixed_env (Inr (Rows []))) ''%41'' ''pie'' world0)
     = Inr (''https://app.powerbi.com/groups/ws1/reports/rep1?pageName=PieChart''
            @ ''&filter='' @ ''agent_output/run_id%20eq%20'%41'' @ [CHR 0x27])"
    by (simp add: generate_powerbi_url_def io_return_def Let_def fixed_env_def fstr_opt_def
                  page_name_of_def VISUAL_PAGE_MAP_def)
  have f: "url_filter_value (''https://app.powerbi.com/groups/ws1/reports/rep1?pageName=PieChart''
            @ ''&filter='' @ ''agent_output/run_id%20eq%20'%41'' @ [CHR 0x27])
     = Some (''agent_output/run_id eq 'A'' @ [CHR 0x27])"
    by code_simp
  have d: "url_decode (''agent_output/run_id%20eq%20'%41'' @ [CHR 0x27])
     = ''agent_output/run_id eq 'A'' @ [CHR 0x27]"
    by code_simp
  have u2: "fst (generate_powerbi_url (fixed_env (Inr (Rows []))) ''a&b'' ''pie'' world0)
     = Inr (''https://app.powerbi.com/groups/ws1/reports/rep1?pageName=PieChart''
            @ ''&filter='' @ ''agent_output/run_id%20eq%20'a&b'' @ [CHR 0x27])"
    by (simp add: generate_powerbi_url_def io_return_def Let_def fixed_env_def fstr_opt_def
                  page_name_of_def VISUAL_PAGE_MAP_def)
  have f2: "url_filter_value (''https://app.powerbi.com/groups/ws1/reports/rep1?pageName=PieChart''
            @ ''&filter='' @ ''agent_output/run_id%20eq%20'a&b'' @ [CHR 0x27])
     = Some ''agent_output/run_id eq 'a''"
    by code_simp
  have u3: "fst (generate_powerbi_url (fixed_env (Inr (Rows []))) ''a#b'' ''pie'' world0)
     = Inr (''https://app.powerbi.com/groups/ws1/reports/rep1?pageName=PieChart''
            @ ''&filter='' @ ''agent_output/run_id%20eq%20'a#b'' @ [CHR 0x27])"
    by (simp add: generate_powerbi_url_def io_return_def Let_def fixed_env_def fstr_opt_def
                  page_name_of_def VISUAL_PAGE_MAP_def)
  have f3: "url_filter_value (''https://app.powerbi.com/groups/ws1/reports/rep1?pageName=PieChart''
            @ ''&filter='' @ ''agent_output/run_id%20eq%20'a#b'' @ [CHR 0x27])
     = Some ''agent_output/run_id eq 'a''"
    by code_simp
  from u f d u2 f2 u3 f3 show ?thesis by simp
qed

end
